theory Spec2Isabelle
  imports Complex_Main
begin

section \<open>Python values and exceptions\<close>

text \<open>
  The values that flow through \<^verbatim>\<open>inference.py\<close> and \<^verbatim>\<open>server.py\<close> are the ones
  Python's \<^verbatim>\<open>json\<close> module reads and writes: \<^verbatim>\<open>None\<close>, booleans, integers, floats,
  strings, lists and dictionaries with string keys. A dictionary is an association list in
  insertion order. A float is a dyadic rational, an infinity or a NaN; no operation of the
  two programs looks inside one.
\<close>

datatype pyfloat = Dyadic int int | PosInf | NegInf | NaN

datatype pyval =
    PyNone
  | PyBool bool
  | PyInt int
  | PyFloat pyfloat
  | PyStr string
  | PyList "pyval list"
  | PyDict "(string \<times> pyval) list"


text \<open>
  Both programs catch \<^verbatim>\<open>Exception\<close> and use only \<^verbatim>\<open>str(e)\<close>, so an exception is its
  message. Every failure of a library call is a value \<open>Inl e\<close>; \<^verbatim>\<open>try: ... except
  Exception as e: ...\<close> is \<open>try_except\<close>. Signals outside the \<^verbatim>\<open>Exception\<close> hierarchy
  (keyboard interrupt, interpreter exit) are not part of the model.
\<close>

datatype pyexn = PyException string

fun str_of :: "pyexn \<Rightarrow> string" where
  "str_of (PyException msg) = msg"

definition try_except :: "(pyexn + 'a) \<Rightarrow> (pyexn \<Rightarrow> pyexn + 'a) \<Rightarrow> pyexn + 'a" where
  "try_except body handler = (case body of Inl e \<Rightarrow> handler e | Inr r \<Rightarrow> Inr r)"


section \<open>String operations used by the extractor\<close>

text \<open>
  \<^verbatim>\<open>s.find(c)\<close> is the lowest index of \<open>c\<close> in \<open>s\<close>, \<^verbatim>\<open>s.rfind(c)\<close> the highest, and both
  are \<open>-1\<close> when \<open>c\<close> does not occur: a scan from the left that stops at the first
  occurrence, and one that remembers the latest occurrence. \<^verbatim>\<open>s[a:b]\<close> counts a negative
  bound from the end and clips both bounds to the length.
\<close>

primrec find_from :: "char \<Rightarrow> string \<Rightarrow> int \<Rightarrow> int" where
  "find_from c [] i = - 1"
| "find_from c (x # xs) i = (if x = c then i else find_from c xs (i + 1))"

definition str_find :: "char \<Rightarrow> string \<Rightarrow> int" where
  "str_find c s = find_from c s 0"

primrec rfind_from :: "char \<Rightarrow> string \<Rightarrow> int \<Rightarrow> int \<Rightarrow> int" where
  "rfind_from c [] i found = found"
| "rfind_from c (x # xs) i found = rfind_from c xs (i + 1) (if x = c then i else found)"

definition str_rfind :: "char \<Rightarrow> string \<Rightarrow> int" where
  "str_rfind c s = rfind_from c s 0 (- 1)"

definition slice_bound :: "int \<Rightarrow> nat \<Rightarrow> nat" where
  "slice_bound i n = (if i < 0 then nat (max 0 (i + int n)) else min (nat i) n)"

definition py_slice :: "string \<Rightarrow> int \<Rightarrow> int \<Rightarrow> string" where
  "py_slice s a b =
     (let lo = slice_bound a (length s); hi = slice_bound b (length s)
      in take (hi - lo) (drop lo s))"


section \<open>External collaborators\<close>

text \<open>
  The library calls of the two programs are parameters of the model, each returning
  \<open>Inl e\<close> where the call raises:
  \<^item> \<open>system_instruction\<close>: the module constant \<^verbatim>\<open>SYSTEM_INSTRUCTION\<close> (one text per
    program; the service's text has characters outside the 8-bit \<open>char\<close>);
  \<^item> \<open>json_loads\<close>, \<open>json_dumps\<close>: \<^verbatim>\<open>json.loads(s)\<close> and \<^verbatim>\<open>json.dumps(v)\<close>;
  \<^item> \<open>json_dumps_indent n\<close>: \<^verbatim>\<open>json.dumps(v, indent=n)\<close>;
  \<^item> \<open>jsonify\<close>: Flask's \<^verbatim>\<open>jsonify(v)\<close>, as the body text of the response;
  \<^item> \<open>from_pretrained\<close>: \<^verbatim>\<open>Llama.from_pretrained(...)\<close> with the fixed arguments of the source;
  \<^item> \<open>chat_content m req\<close>: \<^verbatim>\<open>m.create_chat_completion(...)\<close> followed by
    \<^verbatim>\<open>response['choices'][0]['message']['content']\<close>, the generated text (a string).
\<close>

record chat_message =
  role :: string
  content :: string

record chat_request =
  messages :: "chat_message list"
  max_tokens :: nat
  temperature :: rat
  stop :: "string list"

record 'm collaborators =
  system_instruction :: string
  json_loads :: "string \<Rightarrow> pyexn + pyval"
  json_dumps :: "pyval \<Rightarrow> pyexn + string"
  json_dumps_indent :: "nat \<Rightarrow> pyval \<Rightarrow> pyexn + string"
  jsonify :: "pyval \<Rightarrow> pyexn + string"
  from_pretrained :: "pyexn + 'm"
  chat_content :: "'m \<Rightarrow> chat_request \<Rightarrow> pyexn + string"


section \<open>Prompt construction and generation\<close>

text \<open>The dictionary literal with the three fields of a verdict, in the order of the source.\<close>

definition verdict :: "string \<Rightarrow> string \<Rightarrow> string \<Rightarrow> pyval" where
  "verdict status act expl =
     PyDict [(''systemStatus'', PyStr status), (''action'', PyStr act),
             (''explanation'', PyStr expl)]"

text \<open>
  \<^verbatim>\<open>f"{SYSTEM_INSTRUCTION}\n\nINPUT DATA:\n{user_input_json}\n\nDECISION (JSON):"\<close>: the
  pieces of the formatted string, joined.
\<close>

definition full_prompt :: "string \<Rightarrow> string \<Rightarrow> string" where
  "full_prompt instruction user_input_json =
     concat [instruction, ''\<newline>\<newline>INPUT DATA:\<newline>'', user_input_json,
             ''\<newline>\<newline>DECISION (JSON):'']"

text \<open>\<^verbatim>\<open>json.dumps(context, indent=2)\<close>, then the formatted string (both programs).\<close>

definition build_prompt :: "'m collaborators \<Rightarrow> pyval \<Rightarrow> pyexn + string" where
  "build_prompt env ctx =
     (case json_dumps_indent env 2 ctx of
        Inl e \<Rightarrow> Inl e
      | Inr user_input_json \<Rightarrow> Inr (full_prompt (system_instruction env) user_input_json))"

text \<open>The arguments of \<^verbatim>\<open>create_chat_completion\<close> (both programs).\<close>

definition generation_request :: "string \<Rightarrow> chat_request" where
  "generation_request prompt =
     \<lparr>messages = [\<lparr>role = ''user'', content = prompt\<rparr>], max_tokens = 200,
      temperature = 2 / 10, stop = [''```'', ''\<newline>\<newline>'']\<rparr>"

text \<open>
  \<^verbatim>\<open>get_model()\<close> of \<^verbatim>\<open>inference.py\<close>: the global \<^verbatim>\<open>llm\<close> is loaded on first use and
  reused afterwards. The result is the handle and the new value of the global.
\<close>

definition get_model :: "'m collaborators \<Rightarrow> 'm option \<Rightarrow> pyexn + ('m \<times> 'm option)" where
  "get_model env llm =
     (case llm of
        None \<Rightarrow> (case from_pretrained env of Inl e \<Rightarrow> Inl e | Inr m \<Rightarrow> Inr (m, Some m))
      | Some m \<Rightarrow> Inr (m, Some m))"


section \<open>The one-shot program (inference.py)\<close>

text \<open>
  The result of \<open>main\<close> is \<open>Inl e\<close> when an exception leaves it and \<open>Inr out\<close> when it
  returns, \<open>out\<close> being the lines printed. Every \<^verbatim>\<open>print\<close> of the source is the last
  statement of its block, so no line is printed before a failure.
\<close>

definition print_json :: "'m collaborators \<Rightarrow> pyval \<Rightarrow> pyexn + string list" where
  "print_json env v = (case json_dumps env v of Inl e \<Rightarrow> Inl e | Inr line \<Rightarrow> Inr [line])"

text \<open>Lines 84 to 103: parse the input, load the model, build the prompt, generate.\<close>

definition oneshot_generate :: "'m collaborators \<Rightarrow> string \<Rightarrow> pyexn + string" where
  "oneshot_generate env input_str =
     (case json_loads env input_str of
        Inl e \<Rightarrow> Inl e
      | Inr ctx \<Rightarrow>
          (case get_model env None of
             Inl e \<Rightarrow> Inl e
           | Inr (model, llm) \<Rightarrow>
               (case build_prompt env ctx of
                  Inl e \<Rightarrow> Inl e
                | Inr prompt \<Rightarrow> chat_content env model (generation_request prompt))))"

text \<open>Lines 106 to 126: the inner \<^verbatim>\<open>try\<close> with its own \<^verbatim>\<open>except\<close>.\<close>

definition oneshot_extract :: "'m collaborators \<Rightarrow> string \<Rightarrow> pyexn + string list" where
  "oneshot_extract env raw_output =
     try_except
       (let start = str_find (CHR ''{'') raw_output;
            end' = str_rfind (CHR ''}'') raw_output + 1
        in if start \<noteq> - 1 \<and> end' > start
           then (case json_loads env (py_slice raw_output start end') of
                   Inl e \<Rightarrow> Inl e
                 | Inr parsed \<Rightarrow> print_json env parsed)
           else print_json env
                  (verdict ''Monitoring.'' ''Review log.'' ''Reason: Output parsing error.''))
       (\<lambda>e. print_json env
               (verdict ''Error'' ''None'' (''Reason: Parsing exception '' @ str_of e)))"

text \<open>
  Lines 77 to 133: \<^verbatim>\<open>main\<close>, with the outer \<^verbatim>\<open>try\<close> around everything.
  \<open>stdin_read\<close> is what \<^verbatim>\<open>sys.stdin.read()\<close> gives: the text of the standard input, or
  an exception.
\<close>

definition main :: "'m collaborators \<Rightarrow> pyexn + string \<Rightarrow> pyexn + string list" where
  "main env stdin_read =
     try_except
       (case stdin_read of
          Inl e \<Rightarrow> Inl e
        | Inr input_str \<Rightarrow>
            if input_str = [] then Inr []
            else (case oneshot_generate env input_str of
                    Inl e \<Rightarrow> Inl e
                  | Inr raw_output \<Rightarrow> oneshot_extract env raw_output))
       (\<lambda>e. print_json env
               (verdict ''Error'' ''None'' (''Reason: Inference exception '' @ str_of e)))"


section \<open>The service (server.py)\<close>

text \<open>
  A response is the body text and the status code; \<^verbatim>\<open>return jsonify(v)\<close> has status 200.
  The handler runs inside \<^verbatim>\<open>with lock:\<close>; the model is of one request at a time.
  \<open>request_json\<close> is what \<^verbatim>\<open>request.json\<close> gives: the decoded body, or an exception.
\<close>

definition respond :: "'m collaborators \<Rightarrow> pyval \<Rightarrow> nat \<Rightarrow> pyexn + (string \<times> nat)" where
  "respond env v code = (case jsonify env v of Inl e \<Rightarrow> Inl e | Inr body \<Rightarrow> Inr (body, code))"

text \<open>Lines 87 to 99: read the body, build the prompt, generate.\<close>

definition service_generate ::
  "'m collaborators \<Rightarrow> 'm \<Rightarrow> pyexn + pyval \<Rightarrow> pyexn + string" where
  "service_generate env llm request_json =
     (case request_json of
        Inl e \<Rightarrow> Inl e
      | Inr ctx \<Rightarrow>
          (case build_prompt env ctx of
             Inl e \<Rightarrow> Inl e
           | Inr prompt \<Rightarrow> chat_content env llm (generation_request prompt)))"

text \<open>Lines 103 to 114: extraction, with no \<^verbatim>\<open>try\<close> of its own.\<close>

definition service_extract :: "'m collaborators \<Rightarrow> string \<Rightarrow> pyexn + (string \<times> nat)" where
  "service_extract env raw_output =
     (let start = str_find (CHR ''{'') raw_output;
          end' = str_rfind (CHR ''}'') raw_output + 1
      in if start \<noteq> - 1 \<and> end' > start
         then (case json_loads env (py_slice raw_output start end') of
                 Inl e \<Rightarrow> Inl e
               | Inr parsed \<Rightarrow> respond env parsed 200)
         else respond env
                (verdict ''Monitoring.'' ''Continue normal activities.''
                   ''Reason: System check complete.'') 200)"

text \<open>Lines 84 to 122: the handler of \<^verbatim>\<open>POST /inference\<close>.\<close>

definition inference ::
  "'m collaborators \<Rightarrow> 'm \<Rightarrow> pyexn + pyval \<Rightarrow> pyexn + (string \<times> nat)" where
  "inference env llm request_json =
     try_except
       (case service_generate env llm request_json of
          Inl e \<Rightarrow> Inl e
        | Inr raw_output \<Rightarrow> service_extract env raw_output)
       (\<lambda>e. respond env
               (verdict ''Error. Monitoring active.'' ''None.'' (''Reason: '' @ str_of e)) 500)"


section \<open>Stand-ins for the collaborators\<close>

text \<open>
  Concrete collaborators on which the pipeline can be run: a serialiser in the layout of
  \<^verbatim>\<open>json.dumps\<close> (separators \<^verbatim>\<open>", "\<close> and \<^verbatim>\<open>": "\<close>, and the indented layout), a parser
  that knows the texts of the scenarios below and rejects every other text, a model that
  always loads, and a gateway that gives a fixed answer. They stand in for the libraries
  in the examples; the theorems are about every choice of collaborators.
\<close>

definition digit_char :: "nat \<Rightarrow> char" where
  "digit_char d = ''0123456789'' ! d"

fun show_nat :: "nat \<Rightarrow> string" where
  "show_nat n =
     (if n < 10 then [digit_char n] else show_nat (n div 10) @ [digit_char (n mod 10)])"

declare show_nat.simps [simp del]

definition show_int :: "int \<Rightarrow> string" where
  "show_int i = (if i < 0 then CHR ''-'' # show_nat (nat (- i)) else show_nat (nat i))"

fun show_float :: "pyfloat \<Rightarrow> string" where
  "show_float (Dyadic m e) = show_int m @ ''p'' @ show_int e"
| "show_float PosInf = ''Infinity''"
| "show_float NegInf = ''-Infinity''"
| "show_float NaN = ''NaN''"

definition escape_char :: "char \<Rightarrow> string" where
  \<open>escape_char c =
     (if c = CHR ''"'' then [CHR 0x5C, CHR ''"'']
      else if c = CHR 0x5C then [CHR 0x5C, CHR 0x5C]
      else if c = CHR ''\<newline>'' then [CHR 0x5C, CHR ''n'']
      else [c])\<close>

definition show_str :: "string \<Rightarrow> string" where
  \<open>show_str s = ''"'' @ concat (map escape_char s) @ ''"''\<close>

fun join :: "string \<Rightarrow> string list \<Rightarrow> string" where
  "join sep [] = []"
| "join sep [x] = x"
| "join sep (x # y # ys) = x @ sep @ join sep (y # ys)"

definition show_item :: "string \<times> string \<Rightarrow> string" where
  "show_item kt = show_str (fst kt) @ '': '' @ snd kt"

primrec show_json :: "pyval \<Rightarrow> string" where
  "show_json PyNone = ''null''"
| "show_json (PyBool b) = (if b then ''true'' else ''false'')"
| "show_json (PyInt i) = show_int i"
| "show_json (PyFloat f) = show_float f"
| "show_json (PyStr s) = show_str s"
| "show_json (PyList xs) = ''['' @ join '', '' (map show_json xs) @ '']''"
| "show_json (PyDict kvs) =
     ''{'' @ join '', '' (map show_item (map (map_prod id show_json) kvs)) @ ''}''"

definition newline_indent :: "nat \<Rightarrow> nat \<Rightarrow> string" where
  "newline_indent n level = CHR ''\<newline>'' # replicate (n * level) (CHR '' '')"

definition show_block :: "string \<Rightarrow> string \<Rightarrow> nat \<Rightarrow> nat \<Rightarrow> string list \<Rightarrow> string" where
  "show_block opening closing n level items =
     (if items = [] then opening @ closing
      else opening @ newline_indent n (Suc level)
           @ join ('','' @ newline_indent n (Suc level)) items
           @ newline_indent n level @ closing)"

primrec show_json_indent :: "pyval \<Rightarrow> nat \<Rightarrow> nat \<Rightarrow> string" where
  "show_json_indent PyNone n level = ''null''"
| "show_json_indent (PyBool b) n level = (if b then ''true'' else ''false'')"
| "show_json_indent (PyInt i) n level = show_int i"
| "show_json_indent (PyFloat f) n level = show_float f"
| "show_json_indent (PyStr s) n level = show_str s"
| "show_json_indent (PyList xs) n level =
     show_block ''['' '']'' n level (map (\<lambda>f. f n (Suc level)) (map show_json_indent xs))"
| "show_json_indent (PyDict kvs) n level =
     show_block ''{'' ''}'' n level
       (map (\<lambda>kf. show_item (fst kf, snd kf n (Suc level)))
            (map (map_prod id show_json_indent) kvs))"

text \<open>
  The texts the stand-in parser accepts: the context of Scenario A, its verdict, and an
  explanation-only verdict of the service. One malformed text has the message Python gives
  for it; every other text is rejected as Python rejects a text that starts no value.
\<close>

definition scenario_loads :: "string \<Rightarrow> pyexn + pyval" where
  \<open>scenario_loads s =
     (if s = ''{"sleepHours":3}'' then Inr (PyDict [(''sleepHours'', PyInt 3)])
      else if s = ''{"systemStatus":"Fatigued","action":"Rest","explanation":"Reason: low sleep."}''
        then Inr (verdict ''Fatigued'' ''Rest'' ''Reason: low sleep.'')
      else if s = ''{"explanation": "Rest is required."}''
        then Inr (PyDict [(''explanation'', PyStr ''Rest is required.'')])
      else if s = ''{"systemStatus": Low}''
        then Inl (PyException ''Expecting value: line 1 column 18 (char 17)'')
      else Inl (PyException ''Expecting value: line 1 column 1 (char 0)''))\<close>

definition scenario_env :: "(pyexn + string) \<Rightarrow> unit collaborators" where
  "scenario_env answer =
     \<lparr>system_instruction = ''You are Caretaker AI.'',
      json_loads = scenario_loads,
      json_dumps = (\<lambda>v. Inr (show_json v)),
      json_dumps_indent = (\<lambda>n v. Inr (show_json_indent v n 0)),
      jsonify = (\<lambda>v. Inr (show_json v)),
      from_pretrained = Inr (),
      chat_content = (\<lambda>m req. answer)\<rparr>"

text \<open>The context of Scenario A on standard input and as a decoded request body.\<close>

definition scenario_input :: string where
  \<open>scenario_input = ''{"sleepHours":3}''\<close>

definition scenario_context :: pyval where
  "scenario_context = PyDict [(''sleepHours'', PyInt 3)]"


section \<open>Facts about find, rfind and slicing\<close>

lemma find_from_absent: "c \<notin> set s \<Longrightarrow> find_from c s i = - 1"
  by (induction s arbitrary: i) auto

lemma find_from_first:
  "c \<notin> set pre \<Longrightarrow> find_from c (pre @ c # rest) i = i + int (length pre)"
  by (induction pre arbitrary: i) auto

lemma rfind_from_absent: "c \<notin> set s \<Longrightarrow> rfind_from c s i found = found"
  by (induction s arbitrary: i found) auto

lemma rfind_from_last:
  "c \<notin> set post \<Longrightarrow> rfind_from c (pre @ c # post) i found = i + int (length pre)"
proof (induction pre arbitrary: i found)
  case Nil
  then show ?case by (simp add: rfind_from_absent)
next
  case (Cons x xs)
  then show ?case by simp
qed

lemma str_find_first: "c \<notin> set pre \<Longrightarrow> str_find c (pre @ c # rest) = int (length pre)"
  by (simp add: str_find_def find_from_first)

lemma str_rfind_last: "c \<notin> set post \<Longrightarrow> str_rfind c (pre @ c # post) = int (length pre)"
  by (simp add: str_rfind_def rfind_from_last)

lemma str_find_split:
  assumes "c \<in> set s"
  shows "\<exists>pre rest. s = pre @ c # rest \<and> c \<notin> set pre \<and> str_find c s = int (length pre)"
proof -
  from assms obtain pre rest where s: "s = pre @ c # rest" and pre: "c \<notin> set pre"
    by (auto dest: split_list_first)
  from pre have "str_find c (pre @ c # rest) = int (length pre)" by (rule str_find_first)
  with s pre show ?thesis by blast
qed

lemma str_rfind_split:
  assumes "c \<in> set s"
  shows "\<exists>pre post. s = pre @ c # post \<and> c \<notin> set post \<and> str_rfind c s = int (length pre)"
proof -
  from assms obtain pre post where s: "s = pre @ c # post" and post: "c \<notin> set post"
    by (auto dest: split_list_last)
  from post have "str_rfind c (pre @ c # post) = int (length pre)" by (rule str_rfind_last)
  with s post show ?thesis by blast
qed

lemma str_find_absent: "str_find c s = - 1 \<longleftrightarrow> c \<notin> set s"
proof
  assume "str_find c s = - 1"
  show "c \<notin> set s"
  proof
    assume "c \<in> set s"
    then obtain pre :: string where "str_find c s = int (length pre)"
      using str_find_split [of c s] by blast
    with \<open>str_find c s = - 1\<close> show False by simp
  qed
next
  assume "c \<notin> set s"
  then show "str_find c s = - 1" by (simp add: str_find_def find_from_absent)
qed

lemma str_rfind_absent: "str_rfind c s = - 1 \<longleftrightarrow> c \<notin> set s"
proof
  assume "str_rfind c s = - 1"
  show "c \<notin> set s"
  proof
    assume "c \<in> set s"
    then obtain pre :: string where "str_rfind c s = int (length pre)"
      using str_rfind_split [of c s] by blast
    with \<open>str_rfind c s = - 1\<close> show False by simp
  qed
next
  assume "c \<notin> set s"
  then show "str_rfind c s = - 1" by (simp add: str_rfind_def rfind_from_absent)
qed

lemma py_slice_nat:
  "a \<le> b \<Longrightarrow> b \<le> length s \<Longrightarrow> py_slice s (int a) (int b) = take (b - a) (drop a s)"
  by (simp add: py_slice_def slice_bound_def Let_def)


section \<open>The branch taken by the extractor\<close>

text \<open>
  Both programs take the parsing branch when \<^verbatim>\<open>start != -1 and end > start\<close>. The
  condition holds exactly when the text has a \<open>{\<close> with a \<open>}\<close> somewhere after the first
  one, and the slice is then the text from the first \<open>{\<close> to the last \<open>}\<close>.
\<close>

lemma str_find_nonneg: "c \<in> set s \<Longrightarrow> 0 \<le> str_find c s"
  using str_find_split [of c s] by auto

lemma span_find:
  assumes "raw = pre @ CHR ''{'' # mid @ CHR ''}'' # post" and "CHR ''{'' \<notin> set pre"
  shows "str_find (CHR ''{'') raw = int (length pre)"
  using assms by (simp add: str_find_first)

lemma span_rfind:
  assumes "raw = pre @ CHR ''{'' # mid @ CHR ''}'' # post" and "CHR ''}'' \<notin> set post"
  shows "str_rfind (CHR ''}'') raw = int (length pre) + 1 + int (length mid)"
proof -
  from assms(1) have "raw = (pre @ CHR ''{'' # mid) @ CHR ''}'' # post" by simp
  then have "str_rfind (CHR ''}'') raw = int (length (pre @ CHR ''{'' # mid))"
    using assms(2) str_rfind_last by metis
  then show ?thesis by simp
qed

lemma span_slice:
  assumes "raw = pre @ CHR ''{'' # mid @ CHR ''}'' # post"
  shows "py_slice raw (int (length pre)) (int (length pre) + 1 + int (length mid) + 1)
           = CHR ''{'' # mid @ [CHR ''}'']"
proof -
  have b: "int (length pre) + 1 + int (length mid) + 1 = int (length pre + length mid + 2)"
    by simp
  have le: "length pre + length mid + 2 \<le> length raw" using assms by simp
  have "py_slice raw (int (length pre)) (int (length pre + length mid + 2))
          = take (length pre + length mid + 2 - length pre) (drop (length pre) raw)"
    by (rule py_slice_nat) (use le in simp_all)
  also have "\<dots> = take (length mid + 2) (CHR ''{'' # mid @ CHR ''}'' # post)"
    using assms by simp
  also have "\<dots> = CHR ''{'' # mid @ [CHR ''}'']" by simp
  finally show ?thesis using b by simp
qed

lemma no_span_branch:
  assumes "CHR ''{'' \<notin> set raw \<or> CHR ''}'' \<notin> set raw
           \<or> (\<exists>pre mid post. raw = pre @ CHR ''}'' # mid @ CHR ''{'' # post
                  \<and> CHR ''{'' \<notin> set (pre @ CHR ''}'' # mid)
                  \<and> CHR ''}'' \<notin> set (mid @ CHR ''{'' # post))"
  shows "\<not> (str_find (CHR ''{'') raw \<noteq> - 1
             \<and> str_rfind (CHR ''}'') raw + 1 > str_find (CHR ''{'') raw)"
  using assms
proof (elim disjE exE conjE)
  assume "CHR ''{'' \<notin> set raw"
  then show ?thesis by (simp add: str_find_absent)
next
  assume a: "CHR ''}'' \<notin> set raw"
  then have r: "str_rfind (CHR ''}'') raw = - 1" by (simp add: str_rfind_absent)
  show ?thesis
  proof (cases "CHR ''{'' \<in> set raw")
    case True
    then have "0 \<le> str_find (CHR ''{'') raw" by (rule str_find_nonneg)
    with r show ?thesis by simp
  next
    case False
    then show ?thesis by (simp add: str_find_absent)
  qed
next
  fix pre mid post
  assume raw: "raw = pre @ CHR ''}'' # mid @ CHR ''{'' # post"
    and no_open: "CHR ''{'' \<notin> set (pre @ CHR ''}'' # mid)"
    and no_close: "CHR ''}'' \<notin> set (mid @ CHR ''{'' # post)"
  from raw have "raw = (pre @ CHR ''}'' # mid) @ CHR ''{'' # post" by simp
  then have f: "str_find (CHR ''{'') raw = int (length (pre @ CHR ''}'' # mid))"
    using no_open str_find_first by metis
  have l: "str_rfind (CHR ''}'') raw = int (length pre)"
    using raw no_close str_rfind_last by metis
  from f l show ?thesis by simp
qed



section \<open>The paths of the two programs\<close>

lemma oneshot_extract_span:
  assumes "raw = pre @ CHR ''{'' # mid @ CHR ''}'' # post"
      and "CHR ''{'' \<notin> set pre" and "CHR ''}'' \<notin> set post"
  shows "oneshot_extract env raw =
           try_except
             (case json_loads env (CHR ''{'' # mid @ [CHR ''}'']) of
                Inl e \<Rightarrow> Inl e
              | Inr parsed \<Rightarrow> print_json env parsed)
             (\<lambda>e. print_json env
                     (verdict ''Error'' ''None'' (''Reason: Parsing exception '' @ str_of e)))"
proof -
  have f: "str_find (CHR ''{'') raw = int (length pre)"
    using assms(1,2) by (rule span_find)
  have l: "str_rfind (CHR ''}'') raw = int (length pre) + 1 + int (length mid)"
    using assms(1,3) by (rule span_rfind)
  have s: "py_slice raw (int (length pre)) (int (length pre) + 1 + int (length mid) + 1)
             = CHR ''{'' # mid @ [CHR ''}'']"
    using assms(1) by (rule span_slice)
  show ?thesis unfolding oneshot_extract_def Let_def f l s by simp
qed

lemma service_extract_span:
  assumes "raw = pre @ CHR ''{'' # mid @ CHR ''}'' # post"
      and "CHR ''{'' \<notin> set pre" and "CHR ''}'' \<notin> set post"
  shows "service_extract env raw =
           (case json_loads env (CHR ''{'' # mid @ [CHR ''}'']) of
              Inl e \<Rightarrow> Inl e
            | Inr parsed \<Rightarrow> respond env parsed 200)"
proof -
  have f: "str_find (CHR ''{'') raw = int (length pre)"
    using assms(1,2) by (rule span_find)
  have l: "str_rfind (CHR ''}'') raw = int (length pre) + 1 + int (length mid)"
    using assms(1,3) by (rule span_rfind)
  have s: "py_slice raw (int (length pre)) (int (length pre) + 1 + int (length mid) + 1)
             = CHR ''{'' # mid @ [CHR ''}'']"
    using assms(1) by (rule span_slice)
  show ?thesis unfolding service_extract_def Let_def f l s by simp
qed

lemma oneshot_extract_no_span:
  assumes "\<not> (str_find (CHR ''{'') raw \<noteq> - 1
             \<and> str_rfind (CHR ''}'') raw + 1 > str_find (CHR ''{'') raw)"
  shows "oneshot_extract env raw =
           try_except
             (print_json env
                (verdict ''Monitoring.'' ''Review log.'' ''Reason: Output parsing error.''))
             (\<lambda>e. print_json env
                     (verdict ''Error'' ''None'' (''Reason: Parsing exception '' @ str_of e)))"
  using assms unfolding oneshot_extract_def Let_def by (simp only: if_False)

lemma service_extract_no_span:
  assumes "\<not> (str_find (CHR ''{'') raw \<noteq> - 1
             \<and> str_rfind (CHR ''}'') raw + 1 > str_find (CHR ''{'') raw)"
  shows "service_extract env raw =
           respond env
             (verdict ''Monitoring.'' ''Continue normal activities.''
                ''Reason: System check complete.'') 200"
  using assms unfolding service_extract_def Let_def by (simp only: if_False)

lemma main_nonempty:
  "input_str \<noteq> [] \<Longrightarrow> oneshot_generate env input_str = Inr raw \<Longrightarrow>
   main env (Inr input_str) =
     try_except (oneshot_extract env raw)
       (\<lambda>e. print_json env
               (verdict ''Error'' ''None'' (''Reason: Inference exception '' @ str_of e)))"
  by (simp add: main_def)

lemma main_generate_failed:
  "input_str \<noteq> [] \<Longrightarrow> oneshot_generate env input_str = Inl e \<Longrightarrow>
   main env (Inr input_str) =
     print_json env (verdict ''Error'' ''None'' (''Reason: Inference exception '' @ str_of e))"
  by (simp add: main_def try_except_def)


lemma inference_generated:
  "service_generate env llm request_json = Inr raw \<Longrightarrow>
   inference env llm request_json =
     try_except (service_extract env raw)
       (\<lambda>e. respond env
               (verdict ''Error. Monitoring active.'' ''None.'' (''Reason: '' @ str_of e)) 500)"
  by (simp add: inference_def)

lemma inference_generate_failed:
  "service_generate env llm request_json = Inl e \<Longrightarrow>
   inference env llm request_json =
     respond env (verdict ''Error. Monitoring active.'' ''None.'' (''Reason: '' @ str_of e)) 500"
  by (simp add: inference_def try_except_def)

lemma oneshot_generate_prompt_failed:
  "json_loads env input_str = Inr ctx \<Longrightarrow> from_pretrained env = Inr m \<Longrightarrow>
   build_prompt env ctx = Inl e \<Longrightarrow> oneshot_generate env input_str = Inl e"
  by (simp add: oneshot_generate_def get_model_def)

lemma oneshot_generate_prompt_built:
  "json_loads env input_str = Inr ctx \<Longrightarrow> from_pretrained env = Inr m \<Longrightarrow>
   build_prompt env ctx = Inr prompt \<Longrightarrow>
   oneshot_generate env input_str = chat_content env m (generation_request prompt)"
  by (simp add: oneshot_generate_def get_model_def)

lemma service_generate_prompt_failed:
  "build_prompt env ctx = Inl e \<Longrightarrow> service_generate env llm (Inr ctx) = Inl e"
  by (simp add: service_generate_def)


lemma inference_extract_failed:
  "service_generate env llm request_json = Inr raw \<Longrightarrow> service_extract env raw = Inl e \<Longrightarrow>
   inference env llm request_json =
     respond env (verdict ''Error. Monitoring active.'' ''None.'' (''Reason: '' @ str_of e)) 500"
  by (simp add: inference_def try_except_def)

text \<open>The stand-ins hand the gateway's answer to the extractor.\<close>

lemma scenario_generate:
  "oneshot_generate (scenario_env answer) scenario_input = answer"
  by (simp add: oneshot_generate_def scenario_env_def scenario_input_def scenario_loads_def
      get_model_def build_prompt_def)

lemma scenario_service_generate:
  "service_generate (scenario_env answer) () (Inr scenario_context) = answer"
  by (simp add: service_generate_def scenario_env_def build_prompt_def)

lemma scenario_build_prompt:
  \<open>build_prompt (scenario_env answer) scenario_context
     = Inr ''You are Caretaker AI.\<newline>\<newline>INPUT DATA:\<newline>{\<newline>  "sleepHours": 3\<newline>}\<newline>\<newline>DECISION (JSON):''\<close>
  by (simp add: build_prompt_def scenario_env_def scenario_context_def full_prompt_def
      show_block_def newline_indent_def show_item_def show_str_def escape_char_def
      show_int_def show_nat.simps digit_char_def numeral_2_eq_2)

lemma scenario_loads_input:
  "json_loads (scenario_env answer) scenario_input = Inr scenario_context"
  by (simp add: scenario_env_def scenario_loads_def scenario_input_def scenario_context_def)

section \<open>Empty input\<close>

text \<open>
  C8. When the standard input of the one-shot program is empty, \<open>main\<close> returns without
  printing anything and without raising.
\<close>

theorem main_empty_input: "main env (Inr []) = Inr []"
  by (simp add: main_def try_except_def)


section \<open>Output without a brace span\<close>

text \<open>
  C2, as the code has it. When the generated text has no \<open>{\<close>, or no \<open>}\<close>, or its last
  \<open>}\<close> stands before its first \<open>{\<close>, the one-shot program prints the verdict with status
  "Monitoring.", action "Review log." and explanation "Reason: Output parsing error.", and
  the service answers 200 with the verdict with status "Monitoring.", action "Continue
  normal activities." and explanation "Reason: System check complete.".
\<close>

theorem no_json_fallback:
  assumes "CHR ''{'' \<notin> set raw \<or> CHR ''}'' \<notin> set raw
           \<or> (\<exists>pre mid post. raw = pre @ CHR ''}'' # mid @ CHR ''{'' # post
                  \<and> CHR ''{'' \<notin> set (pre @ CHR ''}'' # mid)
                  \<and> CHR ''}'' \<notin> set (mid @ CHR ''{'' # post))"
      and "json_dumps env
             (verdict ''Monitoring.'' ''Review log.'' ''Reason: Output parsing error.'')
           = Inr line"
  shows "oneshot_extract env raw = Inr [line]
       \<and> service_extract env raw =
           respond env
             (verdict ''Monitoring.'' ''Continue normal activities.''
                ''Reason: System check complete.'') 200"
proof -
  have b: "\<not> (str_find (CHR ''{'') raw \<noteq> - 1
             \<and> str_rfind (CHR ''}'') raw + 1 > str_find (CHR ''{'') raw)"
    using assms(1) by (rule no_span_branch)
  have "oneshot_extract env raw = Inr [line]"
    using assms(2) by (simp add: oneshot_extract_no_span [OF b] print_json_def try_except_def)
  moreover have "service_extract env raw =
           respond env
             (verdict ''Monitoring.'' ''Continue normal activities.''
                ''Reason: System check complete.'') 200"
    by (rule service_extract_no_span [OF b])
  ultimately show ?thesis by simp
qed

theorem no_json_fallback_witness:
  \<open>oneshot_extract (scenario_env (Inr ''I cannot comply.'')) ''I cannot comply.''
     = Inr [''{"systemStatus": "Monitoring.", "action": "Review log.", "explanation": "Reason: Output parsing error."}'']
   \<and> service_extract (scenario_env (Inr ''I cannot comply.'')) ''I cannot comply.''
     = Inr (''{"systemStatus": "Monitoring.", "action": "Continue normal activities.", "explanation": "Reason: System check complete."}'', 200)\<close>
proof -
  have h1: "CHR ''{'' \<notin> set ''I cannot comply.'' \<or> CHR ''}'' \<notin> set ''I cannot comply.''
           \<or> (\<exists>pre mid post. ''I cannot comply.'' = pre @ CHR ''}'' # mid @ CHR ''{'' # post
                  \<and> CHR ''{'' \<notin> set (pre @ CHR ''}'' # mid)
                  \<and> CHR ''}'' \<notin> set (mid @ CHR ''{'' # post))"
    by simp
  have h2: \<open>json_dumps (scenario_env (Inr ''I cannot comply.''))
             (verdict ''Monitoring.'' ''Review log.'' ''Reason: Output parsing error.'')
           = Inr ''{"systemStatus": "Monitoring.", "action": "Review log.", "explanation": "Reason: Output parsing error."}''\<close>
    by (simp add: scenario_env_def verdict_def show_item_def show_str_def escape_char_def)
  show ?thesis
    using no_json_fallback [OF h1 h2]
    by (simp add: respond_def scenario_env_def verdict_def show_item_def show_str_def
        escape_char_def)
qed

text \<open>
  As stated, C2 gives the service the explanation "Reason: Output parsing error."; on the
  text of Scenario B the service answers with "Reason: System check complete.".
\<close>

theorem no_json_service_counterexample:
  \<open>CHR ''{'' \<notin> set ''I cannot comply.''
   \<and> service_extract (scenario_env (Inr ''I cannot comply.'')) ''I cannot comply.''
     = Inr (''{"systemStatus": "Monitoring.", "action": "Continue normal activities.", "explanation": "Reason: System check complete."}'', 200)
   \<and> service_extract (scenario_env (Inr ''I cannot comply.'')) ''I cannot comply.''
     \<noteq> respond (scenario_env (Inr ''I cannot comply.''))
          (verdict ''Monitoring.'' ''Continue normal activities.''
             ''Reason: Output parsing error.'') 200\<close>
  by (simp add: service_extract_def str_find_def str_rfind_def respond_def scenario_env_def
      verdict_def show_item_def show_str_def escape_char_def)


section \<open>Output with a brace span that parses\<close>

text \<open>
  C3. When the generated text has a first \<open>{\<close> with a last \<open>}\<close> after it and the text
  from the one to the other parses, the result of the pipeline is the parsed value itself:
  the one-shot program prints its serialisation and the service answers 200 with it. The
  value is any value: no field is looked for.
\<close>

theorem parsed_span_is_result:
  assumes "raw = pre @ CHR ''{'' # mid @ CHR ''}'' # post"
      and "CHR ''{'' \<notin> set pre" and "CHR ''}'' \<notin> set post"
      and "json_loads env (CHR ''{'' # mid @ [CHR ''}'']) = Inr parsed"
      and "json_dumps env parsed = Inr line"
      and "jsonify env parsed = Inr body"
  shows "oneshot_extract env raw = Inr [line]
       \<and> service_extract env raw = Inr (body, 200)
       \<and> (\<forall>input_str. input_str \<noteq> [] \<and> oneshot_generate env input_str = Inr raw
             \<longrightarrow> main env (Inr input_str) = Inr [line])
       \<and> (\<forall>llm request_json. service_generate env llm request_json = Inr raw
             \<longrightarrow> inference env llm request_json = Inr (body, 200))"
proof -
  have one: "oneshot_extract env raw = Inr [line]"
    using assms(4,5)
    by (simp add: oneshot_extract_span [OF assms(1,2,3)] print_json_def try_except_def)
  have srv: "service_extract env raw = Inr (body, 200)"
    using assms(4,6) by (simp add: service_extract_span [OF assms(1,2,3)] respond_def)
  have "main env (Inr input_str) = Inr [line]"
    if "input_str \<noteq> []" and "oneshot_generate env input_str = Inr raw" for input_str
    using that one by (simp add: main_nonempty try_except_def)
  moreover have "inference env llm request_json = Inr (body, 200)"
    if "service_generate env llm request_json = Inr raw" for llm request_json
    using that srv by (simp add: inference_generated try_except_def)
  ultimately show ?thesis using one srv by blast
qed

theorem parsed_span_is_result_witness:
  \<open>main (scenario_env (Inr ''ok {"explanation": "Rest is required."} done'')) (Inr scenario_input)
     = Inr [''{"explanation": "Rest is required."}'']
   \<and> inference (scenario_env (Inr ''ok {"explanation": "Rest is required."} done'')) ()
       (Inr scenario_context)
     = Inr (''{"explanation": "Rest is required."}'', 200)\<close>
proof -
  let ?raw = \<open>''ok {"explanation": "Rest is required."} done''\<close>
  let ?env = "scenario_env (Inr ?raw)"
  have h1: \<open>?raw = ''ok '' @ CHR ''{'' # ''"explanation": "Rest is required."'' @ CHR ''}'' # '' done''\<close>
    by simp
  have h2: "CHR ''{'' \<notin> set ''ok ''" by simp
  have h3: "CHR ''}'' \<notin> set '' done''" by simp
  have h4: \<open>json_loads ?env (CHR ''{'' # ''"explanation": "Rest is required."'' @ [CHR ''}''])
              = Inr (PyDict [(''explanation'', PyStr ''Rest is required.'')])\<close>
    by (simp add: scenario_env_def scenario_loads_def)
  have h5: \<open>json_dumps ?env (PyDict [(''explanation'', PyStr ''Rest is required.'')])
              = Inr ''{"explanation": "Rest is required."}''\<close>
    by (simp add: scenario_env_def show_item_def show_str_def escape_char_def)
  have h6: \<open>jsonify ?env (PyDict [(''explanation'', PyStr ''Rest is required.'')])
              = Inr ''{"explanation": "Rest is required."}''\<close>
    by (simp add: scenario_env_def show_item_def show_str_def escape_char_def)
  have g1: "scenario_input \<noteq> []" by (simp add: scenario_input_def)
  show ?thesis
    using parsed_span_is_result [OF h1 h2 h3 h4 h5 h6] g1
      scenario_generate [of "Inr ?raw"] scenario_service_generate [of "Inr ?raw"]
    by blast
qed


section \<open>Output with a brace span that does not parse\<close>

text \<open>
  C4, as the code has it. When the text from the first \<open>{\<close> to the last \<open>}\<close> does not
  parse, the one-shot program prints the verdict with status "Error", action "None" and
  explanation "Reason: Parsing exception " followed by the parser's message. The service
  has no handler of its own for the parser: the exception reaches the handler of the whole
  request, and the answer is 500 with status "Error. Monitoring active.", action "None."
  and explanation "Reason: " followed by the parser's message.
\<close>

theorem parse_failure_verdicts:
  assumes "raw = pre @ CHR ''{'' # mid @ CHR ''}'' # post"
      and "CHR ''{'' \<notin> set pre" and "CHR ''}'' \<notin> set post"
      and "json_loads env (CHR ''{'' # mid @ [CHR ''}'']) = Inl e"
      and "json_dumps env
             (verdict ''Error'' ''None'' (''Reason: Parsing exception '' @ str_of e))
           = Inr line"
  shows "oneshot_extract env raw = Inr [line]
       \<and> (\<forall>input_str. input_str \<noteq> [] \<and> oneshot_generate env input_str = Inr raw
             \<longrightarrow> main env (Inr input_str) = Inr [line])
       \<and> service_extract env raw = Inl e
       \<and> (\<forall>llm request_json. service_generate env llm request_json = Inr raw
             \<longrightarrow> inference env llm request_json =
                 respond env
                   (verdict ''Error. Monitoring active.'' ''None.'' (''Reason: '' @ str_of e))
                   500)"
proof -
  have one: "oneshot_extract env raw = Inr [line]"
    using assms(4,5)
    by (simp add: oneshot_extract_span [OF assms(1,2,3)] print_json_def try_except_def)
  have srv: "service_extract env raw = Inl e"
    using assms(4) by (simp add: service_extract_span [OF assms(1,2,3)])
  have "main env (Inr input_str) = Inr [line]"
    if "input_str \<noteq> []" and "oneshot_generate env input_str = Inr raw" for input_str
    using that one by (simp add: main_nonempty try_except_def)
  moreover have "inference env llm request_json =
      respond env (verdict ''Error. Monitoring active.'' ''None.'' (''Reason: '' @ str_of e)) 500"
    if "service_generate env llm request_json = Inr raw" for llm request_json
    using that srv by (simp add: inference_generated try_except_def)
  ultimately show ?thesis using one srv by blast
qed

theorem parse_failure_verdicts_witness:
  \<open>main (scenario_env (Inr ''x {"systemStatus": Low} y'')) (Inr scenario_input)
     = Inr [''{"systemStatus": "Error", "action": "None", "explanation": "Reason: Parsing exception Expecting value: line 1 column 18 (char 17)"}'']
   \<and> inference (scenario_env (Inr ''x {"systemStatus": Low} y'')) () (Inr scenario_context)
     = Inr (''{"systemStatus": "Error. Monitoring active.", "action": "None.", "explanation": "Reason: Expecting value: line 1 column 18 (char 17)"}'', 500)\<close>
proof -
  let ?raw = \<open>''x {"systemStatus": Low} y''\<close>
  let ?env = "scenario_env (Inr ?raw)"
  let ?e = "PyException ''Expecting value: line 1 column 18 (char 17)''"
  have h1: \<open>?raw = ''x '' @ CHR ''{'' # ''"systemStatus": Low'' @ CHR ''}'' # '' y''\<close>
    by simp
  have h2: "CHR ''{'' \<notin> set ''x ''" by simp
  have h3: "CHR ''}'' \<notin> set '' y''" by simp
  have h4: \<open>json_loads ?env (CHR ''{'' # ''"systemStatus": Low'' @ [CHR ''}'']) = Inl ?e\<close>
    by (simp add: scenario_env_def scenario_loads_def)
  have h5: \<open>json_dumps ?env
             (verdict ''Error'' ''None'' (''Reason: Parsing exception '' @ str_of ?e))
           = Inr ''{"systemStatus": "Error", "action": "None", "explanation": "Reason: Parsing exception Expecting value: line 1 column 18 (char 17)"}''\<close>
    by (simp add: scenario_env_def verdict_def show_item_def show_str_def escape_char_def)
  have g1: "scenario_input \<noteq> []" by (simp add: scenario_input_def)
  have r: \<open>respond ?env
             (verdict ''Error. Monitoring active.'' ''None.'' (''Reason: '' @ str_of ?e)) 500
           = Inr (''{"systemStatus": "Error. Monitoring active.", "action": "None.", "explanation": "Reason: Expecting value: line 1 column 18 (char 17)"}'', 500)\<close>
    by (simp add: respond_def scenario_env_def verdict_def show_item_def show_str_def
        escape_char_def)
  show ?thesis
    using parse_failure_verdicts [OF h1 h2 h3 h4 h5] g1 r
      scenario_generate [of "Inr ?raw"] scenario_service_generate [of "Inr ?raw"]
    by metis
qed

text \<open>
  As stated, C4 gives both programs the "Parsing exception" verdict; the service answers
  a span that does not parse with its general error verdict and status 500.
\<close>

theorem parse_failure_service_counterexample:
  \<open>inference (scenario_env (Inr ''x {"systemStatus": Low} y'')) () (Inr scenario_context)
     = Inr (''{"systemStatus": "Error. Monitoring active.", "action": "None.", "explanation": "Reason: Expecting value: line 1 column 18 (char 17)"}'', 500)
   \<and> inference (scenario_env (Inr ''x {"systemStatus": Low} y'')) () (Inr scenario_context)
     \<noteq> respond (scenario_env (Inr ''x {"systemStatus": Low} y''))
          (verdict ''Error'' ''None''
             ''Reason: Parsing exception Expecting value: line 1 column 18 (char 17)'') 200
   \<and> inference (scenario_env (Inr ''x {"systemStatus": Low} y'')) () (Inr scenario_context)
     \<noteq> respond (scenario_env (Inr ''x {"systemStatus": Low} y''))
          (verdict ''Error'' ''None''
             ''Reason: Parsing exception Expecting value: line 1 column 18 (char 17)'') 500\<close>
  by (simp add: inference_def service_generate_def service_extract_def build_prompt_def
      try_except_def py_slice_def slice_bound_def str_find_def str_rfind_def respond_def
      scenario_env_def scenario_loads_def verdict_def show_item_def show_str_def
      escape_char_def)


section \<open>Failures of prompt construction and generation\<close>

text \<open>
  C5, as the code has it. In the one-shot program an exception of prompt construction or
  of generation is printed as the verdict with status "Error", action "None" and
  explanation "Reason: Inference exception " followed by the message, a verdict different
  from every "Parsing exception" verdict. In the service every exception of the handler,
  of generation and of the parser alike, is answered with status 500 and the verdict with
  status "Error. Monitoring active.", action "None." and explanation "Reason: " followed
  by the message.
\<close>

theorem generation_failure_verdicts:
  assumes "json_dumps env
             (verdict ''Error'' ''None'' (''Reason: Inference exception '' @ str_of e))
           = Inr line"
  shows "(\<forall>input_str ctx m. input_str \<noteq> [] \<and> json_loads env input_str = Inr ctx
            \<and> from_pretrained env = Inr m \<and> build_prompt env ctx = Inl e
            \<longrightarrow> main env (Inr input_str) = Inr [line])
       \<and> (\<forall>input_str ctx m prompt. input_str \<noteq> [] \<and> json_loads env input_str = Inr ctx
            \<and> from_pretrained env = Inr m \<and> build_prompt env ctx = Inr prompt
            \<and> chat_content env m (generation_request prompt) = Inl e
            \<longrightarrow> main env (Inr input_str) = Inr [line])
       \<and> (\<forall>msg. verdict ''Error'' ''None'' (''Reason: Inference exception '' @ str_of e)
                 \<noteq> verdict ''Error'' ''None'' (''Reason: Parsing exception '' @ msg))
       \<and> (\<forall>llm request_json. service_generate env llm request_json = Inl e
            \<longrightarrow> inference env llm request_json =
                respond env
                  (verdict ''Error. Monitoring active.'' ''None.'' (''Reason: '' @ str_of e))
                  500)
       \<and> (\<forall>llm request_json raw. service_generate env llm request_json = Inr raw
            \<and> service_extract env raw = Inl e
            \<longrightarrow> inference env llm request_json =
                respond env
                  (verdict ''Error. Monitoring active.'' ''None.'' (''Reason: '' @ str_of e))
                  500)"
proof -
  have p: "print_json env
             (verdict ''Error'' ''None'' (''Reason: Inference exception '' @ str_of e))
           = Inr [line]"
    using assms by (simp add: print_json_def)
  have a: "main env (Inr input_str) = Inr [line]"
    if "input_str \<noteq> []" and "json_loads env input_str = Inr ctx"
      and "from_pretrained env = Inr m" and "build_prompt env ctx = Inl e"
    for input_str ctx m
    using that p oneshot_generate_prompt_failed [of env input_str ctx m e]
    by (simp add: main_generate_failed)
  have b: "main env (Inr input_str) = Inr [line]"
    if "input_str \<noteq> []" and "json_loads env input_str = Inr ctx"
      and "from_pretrained env = Inr m" and "build_prompt env ctx = Inr prompt"
      and "chat_content env m (generation_request prompt) = Inl e"
    for input_str ctx m prompt
    using that p oneshot_generate_prompt_built [of env input_str ctx m prompt]
    by (simp add: main_generate_failed)
  have c: "verdict ''Error'' ''None'' (''Reason: Inference exception '' @ str_of e)
             \<noteq> verdict ''Error'' ''None'' (''Reason: Parsing exception '' @ msg)" for msg
    by (simp add: verdict_def)
  show ?thesis
  proof (intro conjI allI impI; (elim conjE)?)
    fix input_str ctx m
    assume "input_str \<noteq> []" "json_loads env input_str = Inr ctx"
      "from_pretrained env = Inr m" "build_prompt env ctx = Inl e"
    then show "main env (Inr input_str) = Inr [line]" by (rule a)
  next
    fix input_str ctx m prompt
    assume "input_str \<noteq> []" "json_loads env input_str = Inr ctx"
      "from_pretrained env = Inr m" "build_prompt env ctx = Inr prompt"
      "chat_content env m (generation_request prompt) = Inl e"
    then show "main env (Inr input_str) = Inr [line]" by (rule b)
  next
    fix msg
    show "verdict ''Error'' ''None'' (''Reason: Inference exception '' @ str_of e)
            \<noteq> verdict ''Error'' ''None'' (''Reason: Parsing exception '' @ msg)"
      by (rule c)
  next
    fix llm request_json
    assume "service_generate env llm request_json = Inl e"
    then show "inference env llm request_json =
        respond env (verdict ''Error. Monitoring active.'' ''None.'' (''Reason: '' @ str_of e)) 500"
      by (rule inference_generate_failed)
  next
    fix llm request_json raw
    assume "service_generate env llm request_json = Inr raw" "service_extract env raw = Inl e"
    then show "inference env llm request_json =
        respond env (verdict ''Error. Monitoring active.'' ''None.'' (''Reason: '' @ str_of e)) 500"
      by (rule inference_extract_failed)
  qed
qed


theorem generation_failure_verdicts_witness:
  \<open>main (scenario_env (Inl (PyException ''boom''))) (Inr scenario_input)
     = Inr [''{"systemStatus": "Error", "action": "None", "explanation": "Reason: Inference exception boom"}'']
   \<and> inference (scenario_env (Inl (PyException ''boom''))) () (Inr scenario_context)
     = Inr (''{"systemStatus": "Error. Monitoring active.", "action": "None.", "explanation": "Reason: boom"}'', 500)\<close>
proof -
  let ?e = "PyException ''boom''"
  let ?env = "scenario_env (Inl ?e)"
  have h: \<open>json_dumps ?env
             (verdict ''Error'' ''None'' (''Reason: Inference exception '' @ str_of ?e))
           = Inr ''{"systemStatus": "Error", "action": "None", "explanation": "Reason: Inference exception boom"}''\<close>
    by (simp add: scenario_env_def verdict_def show_item_def show_str_def escape_char_def)
  have g1: "scenario_input \<noteq> []" by (simp add: scenario_input_def)
  have g2: "from_pretrained ?env = Inr ()" by (simp add: scenario_env_def)
  have g3: "chat_content ?env () (generation_request prompt) = Inl ?e" for prompt
    by (simp add: scenario_env_def)
  have r: \<open>respond ?env
             (verdict ''Error. Monitoring active.'' ''None.'' (''Reason: '' @ str_of ?e)) 500
           = Inr (''{"systemStatus": "Error. Monitoring active.", "action": "None.", "explanation": "Reason: boom"}'', 500)\<close>
    by (simp add: respond_def scenario_env_def verdict_def show_item_def show_str_def
        escape_char_def)
  note t = generation_failure_verdicts [OF h]
  from t have "main ?env (Inr scenario_input)
     = Inr [''{\"systemStatus\": \"Error\", \"action\": \"None\", \"explanation\": \"Reason: Inference exception boom\"}'']"
    using g1 g2 g3 scenario_loads_input [of "Inl ?e"] scenario_build_prompt [of "Inl ?e"]
    by blast
  moreover from t have "inference ?env () (Inr scenario_context)
     = respond ?env
         (verdict ''Error. Monitoring active.'' ''None.'' (''Reason: '' @ str_of ?e)) 500"
    using scenario_service_generate [of "Inl ?e"] by blast
  ultimately show ?thesis using r by simp
qed

text \<open>
  As stated, C5 gives the service the "Inference exception" verdict and keeps parse
  failures away from status 500; the service answers a failed generation with its own
  error verdict, and a span that does not parse with status 500 too.
\<close>

theorem generation_failure_service_counterexample:
  \<open>inference (scenario_env (Inl (PyException ''boom''))) () (Inr scenario_context)
     = Inr (''{"systemStatus": "Error. Monitoring active.", "action": "None.", "explanation": "Reason: boom"}'', 500)
   \<and> inference (scenario_env (Inl (PyException ''boom''))) () (Inr scenario_context)
     \<noteq> respond (scenario_env (Inl (PyException ''boom'')))
          (verdict ''Error'' ''None'' ''Reason: Inference exception boom'') 500
   \<and> inference (scenario_env (Inr ''x {"systemStatus": Low} y'')) () (Inr scenario_context)
     = Inr (''{"systemStatus": "Error. Monitoring active.", "action": "None.", "explanation": "Reason: Expecting value: line 1 column 18 (char 17)"}'', 500)\<close>
  by (simp add: inference_def service_generate_def service_extract_def build_prompt_def
      try_except_def py_slice_def slice_bound_def str_find_def str_rfind_def respond_def
      scenario_env_def scenario_loads_def verdict_def show_item_def show_str_def
      escape_char_def)


section \<open>Input that is not JSON\<close>




section \<open>The prompt\<close>




section \<open>Serialisation of the context in the one-shot program\<close>




section \<open>The result is always an object\<close>








end
